theory Spec2Isabelle
  imports Main
begin

section \<open>JSON values and JavaScript objects\<close>

text \<open>
  The server keeps two JSON documents, \<^verbatim>\<open>users.json\<close> and \<^verbatim>\<open>projects.json\<close>, and answers
  every request with a JSON object. A JSON value is modelled as a datatype; an object is
  the list of its bindings in insertion order. Numbers that occur in the claims are whole
  (the likes counter, the default funding), so \<open>JNum\<close> carries an \<open>int\<close>.
  Strings are lists of code units; every character of the model is one code unit.
\<close>

datatype json =
    JNull
  | JBool bool
  | JNum int
  | JStr string
  | JArr "json list"
  | JObj "(string \<times> json) list"

type_synonym obj = "(string \<times> json) list"

text \<open>\<^verbatim>\<open>o[k]\<close>: the value bound to \<open>k\<close>, \<open>None\<close> for \<^verbatim>\<open>undefined\<close>. A later binding of a
  key supersedes an earlier one, as in an object literal and in \<^verbatim>\<open>JSON.parse\<close>.\<close>

definition get_prop :: "obj \<Rightarrow> string \<Rightarrow> json option" where
  "get_prop ob k = map_of (rev ob) k"

text \<open>\<^verbatim>\<open>o[k] = v\<close>: an existing key keeps its place and takes the new value, a new key is
  added at the end.\<close>

definition set_prop :: "obj \<Rightarrow> string \<Rightarrow> json \<Rightarrow> obj" where
  "set_prop ob k v =
     (if k \<in> fst ` set ob
      then map (\<lambda>(k', v'). if k' = k then (k', v) else (k', v')) ob
      else ob @ [(k, v)])"

text \<open>One spread element \<^verbatim>\<open>...src\<close> of an object literal: the own properties of \<open>src\<close> are
  copied, in order, onto the object built so far.\<close>

definition spread :: "obj \<Rightarrow> obj \<Rightarrow> obj" where
  "spread target src = fold (\<lambda>(k, v) acc. set_prop acc k v) src target"

text \<open>The field of a JSON object (of a response body).\<close>

fun field :: "string \<Rightarrow> json \<Rightarrow> json option" where
  "field k (JObj ob) = get_prop ob k"
| "field k _ = None"

section \<open>Request fields and truthiness\<close>

text \<open>
  A field of a request body or query string is a string or absent (\<open>None\<close> is
  \<^verbatim>\<open>undefined\<close>). The test \<^verbatim>\<open>!x\<close> of the handlers holds for an absent field and for the
  empty string.
\<close>

definition falsy :: "string option \<Rightarrow> bool" where
  "falsy x = (case x of None \<Rightarrow> True | Some s \<Rightarrow> s = [])"

definition str_of :: "string option \<Rightarrow> string" where
  "str_of x = (case x of None \<Rightarrow> [] | Some s \<Rightarrow> s)"

section \<open>Validation helpers\<close>

text \<open>
  \<^verbatim>\<open>/^[^\s@]+@[^\s@]+\.[^\s@]+$/\<close>. The class \<^verbatim>\<open>\s\<close> within the code units of the model is
  tab, line feed, vertical tab, form feed, carriage return, space and the no-break space.
\<close>

definition js_space :: "char \<Rightarrow> bool" where
  "js_space c = (of_char c \<in> {9, 10, 11, 12, 13, 32, 160 :: nat})"

definition email_char :: "char \<Rightarrow> bool" where
  "email_char c = (\<not> js_space c \<and> c \<noteq> CHR ''@'')"

text \<open>The regular expression as written: three non-empty runs of characters that are
  neither white space nor \<open>@\<close>, separated by one \<open>@\<close> and one dot.\<close>

definition email_regex :: "string \<Rightarrow> bool" where
  "email_regex e =
     (\<exists>a b c. e = a @ ''@'' @ b @ ''.'' @ c \<and> a \<noteq> [] \<and> b \<noteq> [] \<and> c \<noteq> [] \<and>
        list_all email_char a \<and> list_all email_char b \<and> list_all email_char c)"

text \<open>The matcher that computes it: the first \<open>@\<close> ends the local part, and the rest needs
  a dot that is neither its first nor its last character.\<close>

definition validateEmail :: "string \<Rightarrow> bool" where
  "validateEmail e =
     (let a = takeWhile (\<lambda>c. c \<noteq> CHR ''@'') e;
          r = dropWhile (\<lambda>c. c \<noteq> CHR ''@'') e
      in case r of
           [] \<Rightarrow> False
         | _ # d \<Rightarrow> a \<noteq> [] \<and> list_all email_char a \<and> list_all email_char d \<and>
                    List.member (butlast (tl d)) (CHR ''.''))"

definition validatePassword :: "string \<Rightarrow> bool" where
  "validatePassword pw = (length pw \<ge> 6)"

section \<open>Data model\<close>

text \<open>
  A record of \<^verbatim>\<open>users.json\<close>. The key \<^verbatim>\<open>id\<close> is the field \<open>user_id\<close>; \<open>favorites\<close> is absent
  (\<open>None\<close>) until the first favorite is added.
\<close>

record user =
  user_id :: string
  firstname :: string
  lastname :: string
  username :: string
  email :: string
  password :: string
  userType :: string
  createdAt :: string
  profile :: obj
  favorites :: "string list option"

text \<open>A record of \<^verbatim>\<open>projects.json\<close> (keys \<^verbatim>\<open>id\<close> and \<^verbatim>\<open>createdAt\<close> are \<open>project_id\<close> and
  \<open>project_createdAt\<close>). The counter \<open>likes\<close> starts at 0 and only ever grows, so its
  value is a natural number; it is stored as a JavaScript number, a double, and the like
  handler below adds to it as a double does. \<open>funding\<close> is taken to be a whole number.\<close>

record project =
  project_id :: string
  title :: string
  description :: string
  category :: string
  funding :: int
  creator :: string
  lookingForInvestment :: bool
  status :: string
  project_createdAt :: string
  investors :: "json list"
  likes :: nat

text \<open>The two files. A missing or malformed file reads as the empty list.\<close>

record store =
  USERS_FILE :: "user list"
  PROJECTS_FILE :: "project list"

definition readUsers :: "store \<Rightarrow> user list" where
  "readUsers s = USERS_FILE s"

definition writeUsers :: "user list \<Rightarrow> store \<Rightarrow> store" where
  "writeUsers us s = s\<lparr>USERS_FILE := us\<rparr>"

definition readProjects :: "store \<Rightarrow> project list" where
  "readProjects s = PROJECTS_FILE s"

definition writeProjects :: "project list \<Rightarrow> store \<Rightarrow> store" where
  "writeProjects ps s = s\<lparr>PROJECTS_FILE := ps\<rparr>"

text \<open>What the handlers take from outside: the clock (\<^verbatim>\<open>Date.now().toString()\<close> and
  \<^verbatim>\<open>new Date().toISOString()\<close> at the time of the request) and the two bcrypt calls
  (\<^verbatim>\<open>bcrypt.hash(pw, 12)\<close> with the salt it draws, \<^verbatim>\<open>bcrypt.compare(pw, hash)\<close>).\<close>

record env =
  Date_now :: string
  Date_toISOString :: string
  bcrypt_hash :: "string \<Rightarrow> string"
  bcrypt_compare :: "string \<Rightarrow> string \<Rightarrow> bool"

section \<open>Array methods\<close>

text \<open>\<^verbatim>\<open>xs.findIndex(P)\<close>, with \<open>None\<close> for \<open>-1\<close>; \<^verbatim>\<open>xs.find(P)\<close> is \<^const>\<open>List.find\<close>.\<close>

fun findIndex :: "('a \<Rightarrow> bool) \<Rightarrow> 'a list \<Rightarrow> nat option" where
  "findIndex P [] = None"
| "findIndex P (x # xs) = (if P x then Some 0 else map_option Suc (findIndex P xs))"

text \<open>\<^verbatim>\<open>xs.splice(i, 1)\<close>, for what it leaves in \<open>xs\<close>.\<close>

definition splice1 :: "nat \<Rightarrow> 'a list \<Rightarrow> 'a list" where
  "splice1 i xs = take i xs @ drop (Suc i) xs"

section \<open>Responses\<close>

text \<open>A response is the HTTP status and the JSON body; \<^verbatim>\<open>res.json\<close> alone answers 200.\<close>

type_synonym response = "nat \<times> json"

definition failure :: "nat \<Rightarrow> string \<Rightarrow> response" where
  "failure code msg = (code, JObj [(''success'', JBool False), (''message'', JStr msg)])"

definition status_of :: "response \<Rightarrow> nat" where
  "status_of r = fst r"

definition body_of :: "response \<Rightarrow> json" where
  "body_of r = snd r"

text \<open>\<^verbatim>\<open>JSON.stringify\<close> of a stored user and of a project, as objects.\<close>

definition user_json :: "user \<Rightarrow> obj" where
  "user_json u =
     [(''id'', JStr (user_id u)),
      (''firstname'', JStr (firstname u)),
      (''lastname'', JStr (lastname u)),
      (''username'', JStr (username u)),
      (''email'', JStr (email u)),
      (''password'', JStr (password u)),
      (''userType'', JStr (userType u)),
      (''createdAt'', JStr (createdAt u)),
      (''profile'', JObj (profile u))]
     @ (case favorites u of None \<Rightarrow> [] | Some fs \<Rightarrow> [(''favorites'', JArr (map JStr fs))])"

definition project_json :: "project \<Rightarrow> obj" where
  "project_json p =
     [(''id'', JStr (project_id p)),
      (''title'', JStr (title p)),
      (''description'', JStr (description p)),
      (''category'', JStr (category p)),
      (''funding'', JNum (funding p)),
      (''creator'', JStr (creator p)),
      (''lookingForInvestment'', JBool (lookingForInvestment p)),
      (''status'', JStr (status p)),
      (''createdAt'', JStr (project_createdAt p)),
      (''investors'', JArr (investors p)),
      (''likes'', JNum (int (likes p)))]"

text \<open>An object without some of its keys (the rest pattern
  \<^verbatim>\<open>const { password, ...userWithoutPassword } = user\<close>).\<close>

definition omit :: "string list \<Rightarrow> obj \<Rightarrow> obj" where
  "omit ks ob = filter (\<lambda>(k, v). k \<notin> set ks) ob"

section \<open>User handlers\<close>

subsection \<open>POST /api/signup\<close>

record signup_body =
  sb_firstname :: "string option"
  sb_lastname :: "string option"
  sb_username :: "string option"
  sb_email :: "string option"
  sb_password :: "string option"
  sb_userType :: "string option"

text \<open>The user the handler builds once every check has passed.\<close>

definition newUser :: "env \<Rightarrow> signup_body \<Rightarrow> user" where
  "newUser e b =
     \<lparr> user_id = Date_now e,
       firstname = str_of (sb_firstname b),
       lastname = str_of (sb_lastname b),
       username = str_of (sb_username b),
       email = str_of (sb_email b),
       password = bcrypt_hash e (str_of (sb_password b)),
       userType = str_of (sb_userType b),
       createdAt = Date_toISOString e,
       profile = [(''bio'', JStr []), (''skills'', JArr []), (''interests'', JArr []),
                  (''location'', JStr []), (''website'', JStr [])],
       favorites = None \<rparr>"

definition post_api_signup :: "env \<Rightarrow> signup_body \<Rightarrow> store \<Rightarrow> response \<times> store" where
  "post_api_signup e b s =
     (if falsy (sb_firstname b) \<or> falsy (sb_lastname b) \<or> falsy (sb_username b) \<or>
         falsy (sb_email b) \<or> falsy (sb_password b) \<or> falsy (sb_userType b)
      then (failure 400 ''All fields are required.'', s)
      else if \<not> validateEmail (str_of (sb_email b))
      then (failure 400 ''Please enter a valid email address.'', s)
      else if \<not> validatePassword (str_of (sb_password b))
      then (failure 400 ''Password must be at least 6 characters long.'', s)
      else if str_of (sb_userType b) \<noteq> ''entrepreneur'' \<and> str_of (sb_userType b) \<noteq> ''investor''
      then (failure 400 ''User type must be either entrepreneur or investor.'', s)
      else
        let users = readUsers s in
        if find (\<lambda>u. username u = str_of (sb_username b)) users \<noteq> None
        then (failure 409 ''Username already exists.'', s)
        else if find (\<lambda>u. email u = str_of (sb_email b)) users \<noteq> None
        then (failure 409 ''Email already exists.'', s)
        else
          let nu = newUser e b;
              users' = users @ [nu]
          in ((200, JObj [(''success'', JBool True),
                          (''message'', JStr ''User created successfully!''),
                          (''user'', JObj [(''id'', JStr (user_id nu)),
                                           (''username'', JStr (username nu)),
                                           (''firstname'', JStr (firstname nu)),
                                           (''userType'', JStr (userType nu))])]),
              writeUsers users' s))"

subsection \<open>POST /api/login\<close>

definition post_api_login :: "env \<Rightarrow> string option \<Rightarrow> string option \<Rightarrow> store \<Rightarrow> response \<times> store" where
  "post_api_login e usernameOrEmail pw s =
     (if falsy usernameOrEmail \<or> falsy pw
      then (failure 400 ''All fields are required.'', s)
      else
        let users = readUsers s in
        case find (\<lambda>u. username u = str_of usernameOrEmail \<or> email u = str_of usernameOrEmail) users of
          None \<Rightarrow> (failure 401 ''User not found.'', s)
        | Some u \<Rightarrow>
            if \<not> bcrypt_compare e (str_of pw) (password u)
            then (failure 401 ''Incorrect password.'', s)
            else ((200, JObj [(''success'', JBool True),
                              (''message'', JStr ''Login successful!''),
                              (''user'', JObj [(''id'', JStr (user_id u)),
                                               (''username'', JStr (username u)),
                                               (''firstname'', JStr (firstname u)),
                                               (''userType'', JStr (userType u)),
                                               (''profile'', JObj (profile u))])]),
                  s))"

subsection \<open>PUT /api/user/:username\<close>

text \<open>\<open>uname\<close> is the route parameter; \<open>prof\<close> is \<^verbatim>\<open>req.body.profile\<close>, an object or absent
  (spreading \<^verbatim>\<open>undefined\<close> copies nothing).\<close>

definition put_api_user :: "string \<Rightarrow> obj option \<Rightarrow> store \<Rightarrow> response \<times> store" where
  "put_api_user uname prof s =
     (let users = readUsers s in
      case findIndex (\<lambda>u. username u = uname) users of
        None \<Rightarrow> (failure 404 ''User not found.'', s)
      | Some userIndex \<Rightarrow>
          let merged = spread (spread [] (profile (users ! userIndex)))
                         (case prof of None \<Rightarrow> [] | Some p \<Rightarrow> p);
              users' = users[userIndex := (users ! userIndex)\<lparr>profile := merged\<rparr>]
          in ((200, JObj [(''success'', JBool True),
                          (''message'', JStr ''Profile updated successfully!'')]),
              writeUsers users' s))"

section \<open>Project handlers\<close>

subsection \<open>POST /api/projects\<close>

record project_body =
  pb_title :: "string option"
  pb_description :: "string option"
  pb_category :: "string option"
  pb_funding :: "int option"
  pb_username :: "string option"
  pb_lookingForInvestment :: "bool option"

text \<open>\<^verbatim>\<open>category || 'tech'\<close>, \<^verbatim>\<open>funding || 0\<close> and \<^verbatim>\<open>lookingForInvestment || false\<close>: the
  default replaces an absent field and a falsy one (the empty string, 0, false).\<close>

definition or_str :: "string option \<Rightarrow> string \<Rightarrow> string" where
  "or_str x d = (if falsy x then d else str_of x)"

definition or_num :: "int option \<Rightarrow> int \<Rightarrow> int" where
  "or_num x d = (case x of None \<Rightarrow> d | Some n \<Rightarrow> if n = 0 then d else n)"

definition or_bool :: "bool option \<Rightarrow> bool \<Rightarrow> bool" where
  "or_bool x d = (case x of None \<Rightarrow> d | Some v \<Rightarrow> if v then v else d)"

definition newProject :: "env \<Rightarrow> project_body \<Rightarrow> project" where
  "newProject e b =
     \<lparr> project_id = Date_now e,
       title = str_of (pb_title b),
       description = str_of (pb_description b),
       category = or_str (pb_category b) ''tech'',
       funding = or_num (pb_funding b) 0,
       creator = str_of (pb_username b),
       lookingForInvestment = or_bool (pb_lookingForInvestment b) False,
       status = ''active'',
       project_createdAt = Date_toISOString e,
       investors = [],
       likes = 0 \<rparr>"

definition post_api_projects :: "env \<Rightarrow> project_body \<Rightarrow> store \<Rightarrow> response \<times> store" where
  "post_api_projects e b s =
     (if falsy (pb_title b) \<or> falsy (pb_description b) \<or> falsy (pb_username b)
      then (failure 400 ''Title, description and username are required.'', s)
      else
        let projects = readProjects s;
            np = newProject e b;
            projects' = projects @ [np]
        in ((200, JObj [(''success'', JBool True),
                        (''message'', JStr ''Project created successfully!''),
                        (''project'', JObj (project_json np))]),
            writeProjects projects' s))"

subsection \<open>POST /api/projects/:id/like\<close>

text \<open>
  \<^verbatim>\<open>likes += 1\<close> on a whole, non-negative double \<open>d\<close>. A double holds every whole number
  up to \<open>2^53\<close>, so below \<open>2^53\<close> the sum is exact. From \<open>2^53\<close> to \<open>2^54\<close> the doubles are
  the even numbers \<open>2 * q\<close>, and \<open>d + 1\<close> lies halfway between two of them: it is rounded to
  the one with the even \<open>q\<close>, which is \<open>d\<close> itself for even \<open>q\<close> and \<open>d + 2\<close> for odd \<open>q\<close>.
  From \<open>2^54\<close> on the doubles are at least 4 apart and the sum is rounded back to \<open>d\<close>.
\<close>

definition js_plus_one :: "nat \<Rightarrow> nat" where
  "js_plus_one d =
     (if d < 2 ^ 53 then d + 1
      else if d < 2 ^ 54 \<and> odd (d div 2) then d + 2
      else d)"

definition post_api_projects_like :: "string \<Rightarrow> store \<Rightarrow> response \<times> store" where
  "post_api_projects_like pid s =
     (let projects = readProjects s in
      case findIndex (\<lambda>p. project_id p = pid) projects of
        None \<Rightarrow> (failure 404 ''Project not found.'', s)
      | Some projectIndex \<Rightarrow>
          let projects' = projects[projectIndex :=
                (projects ! projectIndex)\<lparr>likes := js_plus_one (likes (projects ! projectIndex))\<rparr>]
          in ((200, JObj [(''success'', JBool True),
                          (''message'', JStr ''Project liked!''),
                          (''likes'', JNum (int (likes (projects' ! projectIndex))))]),
              writeProjects projects' s))"

subsection \<open>DELETE /api/projects/:id\<close>

text \<open>\<open>pid\<close> is the route parameter, \<open>uname\<close> the query parameter \<^verbatim>\<open>username\<close>.\<close>

definition delete_api_projects :: "string \<Rightarrow> string option \<Rightarrow> store \<Rightarrow> response \<times> store" where
  "delete_api_projects pid uname s =
     (if falsy uname
      then (failure 400 ''Username is required.'', s)
      else
        let projects = readProjects s in
        case findIndex (\<lambda>p. project_id p = pid) projects of
          None \<Rightarrow> (failure 404 ''Project not found.'', s)
        | Some projectIndex \<Rightarrow>
            let p = projects ! projectIndex in
            if creator p \<noteq> str_of uname
            then (failure 403 ''You can only delete your own projects.'', s)
            else ((200, JObj [(''success'', JBool True),
                              (''message'', JStr ''Project deleted successfully!'')]),
                  writeProjects (splice1 projectIndex projects) s))"

section \<open>Favorites handlers\<close>

text \<open>The ids of the eight demo projects; the handler only asks whether one of them has the
  requested id.\<close>

definition demoProjects :: "string list" where
  "demoProjects = [''demo-1'', ''demo-2'', ''demo-3'', ''demo-4'',
                   ''demo-5'', ''demo-6'', ''demo-7'', ''demo-8'']"

subsection \<open>POST /api/favorites\<close>

definition post_api_favorites :: "string option \<Rightarrow> string option \<Rightarrow> store \<Rightarrow> response \<times> store" where
  "post_api_favorites uname projectId s =
     (if falsy uname \<or> falsy projectId
      then (failure 400 ''Username and project ID are required.'', s)
      else
        let users = readUsers s in
        case findIndex (\<lambda>u. username u = str_of uname) users of
          None \<Rightarrow> (failure 404 ''User not found.'', s)
        | Some userIndex \<Rightarrow>
            let projects = readProjects s;
                found = (find (\<lambda>p. project_id p = str_of projectId) projects \<noteq> None \<or>
                         find (\<lambda>d. d = str_of projectId) demoProjects \<noteq> None)
            in
            if \<not> found
            then (failure 404 ''Project not found.'', s)
            else
              let favs = (case favorites (users ! userIndex) of None \<Rightarrow> [] | Some fs \<Rightarrow> fs) in
              if List.member favs (str_of projectId)
              then (failure 409 ''Project already in favorites.'', s)
              else
                let users' = users[userIndex :=
                      (users ! userIndex)\<lparr>favorites := Some (favs @ [str_of projectId])\<rparr>]
                in ((200, JObj [(''success'', JBool True),
                                (''message'', JStr ''Project added to favorites!'')]),
                    writeUsers users' s))"

subsection \<open>DELETE /api/favorites/:projectId\<close>

definition delete_api_favorites :: "string \<Rightarrow> string option \<Rightarrow> store \<Rightarrow> response \<times> store" where
  "delete_api_favorites projectId uname s =
     (if falsy uname
      then (failure 400 ''Username is required.'', s)
      else
        let users = readUsers s in
        case findIndex (\<lambda>u. username u = str_of uname) users of
          None \<Rightarrow> (failure 404 ''User not found.'', s)
        | Some userIndex \<Rightarrow>
            (case favorites (users ! userIndex) of
               None \<Rightarrow> (failure 404 ''No favorites found.'', s)
             | Some favs \<Rightarrow>
                 (case findIndex (\<lambda>x. x = projectId) favs of
                    None \<Rightarrow> (failure 404 ''Project not in favorites.'', s)
                  | Some favoriteIndex \<Rightarrow>
                      let users' = users[userIndex :=
                            (users ! userIndex)\<lparr>favorites := Some (splice1 favoriteIndex favs)\<rparr>]
                      in ((200, JObj [(''success'', JBool True),
                                      (''message'', JStr ''Project removed from favorites!'')]),
                          writeUsers users' s))))"

section \<open>Notions used in the statements\<close>

text \<open>A signup body that passes the four validation steps of the handler.\<close>

definition valid_signup :: "signup_body \<Rightarrow> bool" where
  "valid_signup b =
     (\<not> falsy (sb_firstname b) \<and> \<not> falsy (sb_lastname b) \<and> \<not> falsy (sb_username b) \<and>
      \<not> falsy (sb_email b) \<and> \<not> falsy (sb_password b) \<and> \<not> falsy (sb_userType b) \<and>
      validateEmail (str_of (sb_email b)) \<and> validatePassword (str_of (sb_password b)) \<and>
      (str_of (sb_userType b) = ''entrepreneur'' \<or> str_of (sb_userType b) = ''investor''))"

text \<open>Two strings that differ only in the case of their (ASCII) letters.\<close>

definition lower_char :: "char \<Rightarrow> char" where
  "lower_char c =
     (if 65 \<le> (of_char c :: nat) \<and> (of_char c :: nat) \<le> 90 then char_of (of_char c + 32 :: nat) else c)"

definition differ_only_in_case :: "string \<Rightarrow> string \<Rightarrow> bool" where
  "differ_only_in_case a b = (a \<noteq> b \<and> map lower_char a = map lower_char b)"

text \<open>The number of like requests applied one after the other.\<close>

fun like_times :: "nat \<Rightarrow> string \<Rightarrow> store \<Rightarrow> store" where
  "like_times 0 pid s = s"
| "like_times (Suc n) pid s = like_times n pid (snd (post_api_projects_like pid s))"

section \<open>Sample data\<close>

text \<open>A clock reading and a stand-in for bcrypt (a hash that a comparison recognises),
  for the concrete runs below.\<close>

definition env0 :: env where
  "env0 = \<lparr> Date_now = ''1700000000000'',
            Date_toISOString = ''2023-11-14T22:13:20.000Z'',
            bcrypt_hash = (\<lambda>pw. ''$2a$12$'' @ pw),
            bcrypt_compare = (\<lambda>pw h. h = ''$2a$12$'' @ pw) \<rparr>"

definition env1 :: env where
  "env1 = env0\<lparr> Date_now := ''1700000000001'', Date_toISOString := ''2023-11-14T22:13:20.001Z'' \<rparr>"

definition store0 :: store where
  "store0 = \<lparr> USERS_FILE = [], PROJECTS_FILE = [] \<rparr>"

definition ada_body :: signup_body where
  "ada_body = \<lparr> sb_firstname = Some ''Ada'', sb_lastname = Some ''L'', sb_username = Some ''ada'',
                sb_email = Some ''ada@x.com'', sb_password = Some ''secret1'',
                sb_userType = Some ''entrepreneur'' \<rparr>"

definition ada :: user where
  "ada = \<lparr> user_id = ''1700000000000'', firstname = ''Ada'', lastname = ''L'', username = ''ada'',
           email = ''ada@x.com'', password = ''$2a$12$secret1'', userType = ''entrepreneur'',
           createdAt = ''2023-11-14T22:13:20.000Z'',
           profile = [(''bio'', JStr []), (''skills'', JArr []), (''interests'', JArr []),
                      (''location'', JStr []), (''website'', JStr [])],
           favorites = None \<rparr>"

definition store_ada :: store where
  "store_ada = \<lparr> USERS_FILE = [ada], PROJECTS_FILE = [] \<rparr>"

definition short_pw_body :: signup_body where
  "short_pw_body = ada_body\<lparr> sb_password := Some ''abc'' \<rparr>"

text \<open>Two signups whose emails differ only in the case of one letter.\<close>

definition upper_body :: signup_body where
  "upper_body = \<lparr> sb_firstname = Some ''Ada'', sb_lastname = Some ''B'', sb_username = Some ''ada2'',
                  sb_email = Some ''Ada@x.com'', sb_password = Some ''secret2'',
                  sb_userType = Some ''investor'' \<rparr>"

definition lower_body :: signup_body where
  "lower_body = \<lparr> sb_firstname = Some ''Ada'', sb_lastname = Some ''C'', sb_username = Some ''ada3'',
                  sb_email = Some ''ada@x.com'', sb_password = Some ''secret3'',
                  sb_userType = Some ''investor'' \<rparr>"

text \<open>Two users where the username of the first is the email of the second.\<close>

definition al_body :: signup_body where
  "al_body = \<lparr> sb_firstname = Some ''Al'', sb_lastname = Some ''A'', sb_username = Some ''bob@x.com'',
               sb_email = Some ''al@x.com'', sb_password = Some ''alpass1'',
               sb_userType = Some ''investor'' \<rparr>"

definition bob_body :: signup_body where
  "bob_body = \<lparr> sb_firstname = Some ''Bob'', sb_lastname = Some ''B'', sb_username = Some ''bob'',
                sb_email = Some ''bob@x.com'', sb_password = Some ''bobpass1'',
                sb_userType = Some ''entrepreneur'' \<rparr>"

definition store_al_bob :: store where
  "store_al_bob = snd (post_api_signup env1 bob_body (snd (post_api_signup env0 al_body store0)))"

text \<open>Project bodies: the example of the specification, and one under a username that no
  user has.\<close>

definition td_body :: project_body where
  "td_body = \<lparr> pb_title = Some ''T'', pb_description = Some ''D'', pb_category = None,
               pb_funding = None, pb_username = Some ''ada'', pb_lookingForInvestment = None \<rparr>"

definition ghost_body :: project_body where
  "ghost_body = td_body\<lparr> pb_username := Some ''ghost'' \<rparr>"

definition td_project :: project where
  "td_project = \<lparr> project_id = ''1700000000001'', title = ''T'', description = ''D'',
                  category = ''tech'', funding = 0, creator = ''ada'', lookingForInvestment = False,
                  status = ''active'', project_createdAt = ''2023-11-14T22:13:20.001Z'',
                  investors = [], likes = 0 \<rparr>"

definition store_td :: store where
  "store_td = \<lparr> USERS_FILE = [ada], PROJECTS_FILE = [td_project] \<rparr>"

text \<open>Ada after she has made the project a favorite, and the store after she has then
  deleted the project.\<close>

definition ada_fav :: user where
  "ada_fav = ada\<lparr> favorites := Some [''1700000000001''] \<rparr>"

definition store_fav :: store where
  "store_fav = \<lparr> USERS_FILE = [ada_fav], PROJECTS_FILE = [td_project] \<rparr>"

definition store_fav_deleted :: store where
  "store_fav_deleted = \<lparr> USERS_FILE = [ada_fav], PROJECTS_FILE = [] \<rparr>"

text \<open>The store with the project at \<open>2^53\<close> likes.\<close>

definition store_max :: store where
  "store_max = \<lparr> USERS_FILE = [ada],
                  PROJECTS_FILE = [td_project\<lparr> likes := 9007199254740992 \<rparr>] \<rparr>"

text \<open>Ada with a skill in her profile.\<close>

definition ada_ml :: user where
  "ada_ml = ada\<lparr> profile := [(''bio'', JStr []), (''skills'', JArr [JStr ''ml'']),
                               (''interests'', JArr []), (''location'', JStr []),
                               (''website'', JStr [])] \<rparr>"

definition store_ml :: store where
  "store_ml = \<lparr> USERS_FILE = [ada_ml], PROJECTS_FILE = [] \<rparr>"

section \<open>The email matcher computes the regular expression\<close>

lemma email_char_dot: "email_char (CHR ''.'')"
  by (simp add: email_char_def js_space_def)

lemma email_char_not_at: "email_char c \<Longrightarrow> c \<noteq> CHR ''@''"
  by (simp add: email_char_def)

lemma validateEmail_regex: "validateEmail e \<longleftrightarrow> email_regex e"
proof
  assume v: "validateEmail e"
  define a where "a = takeWhile (\<lambda>c. c \<noteq> CHR ''@'') e"
  define r where "r = dropWhile (\<lambda>c. c \<noteq> CHR ''@'') e"
  have e: "e = a @ r"
    by (simp add: a_def r_def)
  from v obtain x d where r: "r = x # d" and a: "a \<noteq> []" "list_all email_char a"
    and d: "list_all email_char d" "CHR ''.'' \<in> set (butlast (tl d))"
    by (auto simp: validateEmail_def Let_def a_def r_def split: list.splits)
  have "dropWhile (\<lambda>c. c \<noteq> CHR ''@'') e \<noteq> []"
    using r by (simp add: r_def)
  from hd_dropWhile[OF this] r have x: "x = CHR ''@''"
    by (simp add: r_def)
  from d(2) obtain y d' where d': "d = y # d'"
    by (cases d) auto
  with d(2) have dot: "CHR ''.'' \<in> set (butlast d')"
    by simp
  then have ne: "d' \<noteq> []"
    by auto
  from dot obtain p q where pq: "butlast d' = p @ CHR ''.'' # q"
    by (auto dest: split_list)
  from ne obtain l where "d' = butlast d' @ [l]"
    by (metis append_butlast_last_id)
  with pq have d'': "d' = p @ CHR ''.'' # q @ [l]"
    by simp
  have "e = a @ ''@'' @ (y # p) @ ''.'' @ (q @ [l])"
    using e r x d' d'' by simp
  moreover from d(1) d' have "list_all email_char (y # d')"
    by simp
  then have "list_all email_char (y # p)" and "list_all email_char (q @ [l])"
    by (simp_all add: d'')
  ultimately show "email_regex e"
    unfolding email_regex_def using a by blast
next
  assume "email_regex e"
  then obtain a b c where e: "e = a @ ''@'' @ b @ ''.'' @ c"
    and ne: "a \<noteq> []" "b \<noteq> []" "c \<noteq> []"
    and ok: "list_all email_char a" "list_all email_char b" "list_all email_char c"
    unfolding email_regex_def by blast
  from ok(1) have na: "\<forall>x\<in>set a. x \<noteq> CHR ''@''"
    by (auto simp: list_all_iff email_char_not_at)
  from e have e': "e = a @ CHR ''@'' # (b @ CHR ''.'' # c)"
    by simp
  have tw: "takeWhile (\<lambda>c. c \<noteq> CHR ''@'') e = a"
    using na by (simp add: e' takeWhile_tail)
  have dw: "dropWhile (\<lambda>c. c \<noteq> CHR ''@'') e = CHR ''@'' # (b @ CHR ''.'' # c)"
    using na by (simp add: e' dropWhile_append3)
  from ne(2) obtain y b' where b: "b = y # b'"
    by (cases b) auto
  from ne(3) have "butlast (b' @ CHR ''.'' # c) = b' @ CHR ''.'' # butlast c"
    by (simp add: butlast_append)
  then have dot: "CHR ''.'' \<in> set (butlast (tl (b @ CHR ''.'' # c)))"
    by (simp add: b)
  have "list_all email_char (b @ CHR ''.'' # c)"
    using ok(2,3) email_char_dot by simp
  with ne(1) ok(1) dot show "validateEmail e"
    by (simp add: validateEmail_def tw dw)
qed

section \<open>Lemmas about the array and object helpers\<close>

lemma findIndex_Some:
  "findIndex P xs = Some i \<Longrightarrow> i < length xs \<and> P (xs ! i) \<and> (\<forall>j<i. \<not> P (xs ! j))"
proof (induction xs arbitrary: i)
  case Nil
  then show ?case by simp
next
  case (Cons x xs)
  show ?case
  proof (cases "P x")
    case True
    with Cons.prems show ?thesis by simp
  next
    case False
    with Cons.prems obtain k where k: "findIndex P xs = Some k" "i = Suc k"
      by auto
    from Cons.IH[OF k(1)] False k(2) show ?thesis
      by (auto simp: nth_Cons split: nat.splits)
  qed
qed

lemma findIndex_None: "findIndex P xs = None \<longleftrightarrow> (\<forall>x\<in>set xs. \<not> P x)"
  by (induction xs) auto

text \<open>An index is found exactly when some element satisfies the test.\<close>

lemma findIndex_exists: "(\<exists>i. findIndex P xs = Some i) \<longleftrightarrow> (\<exists>x\<in>set xs. P x)"
  using findIndex_None[of P xs] by (cases "findIndex P xs") auto

lemma findIndex_first:
  "i < length xs \<Longrightarrow> P (xs ! i) \<Longrightarrow> \<forall>j<i. \<not> P (xs ! j) \<Longrightarrow> findIndex P xs = Some i"
proof (induction xs arbitrary: i)
  case Nil
  then show ?case by simp
next
  case (Cons x xs)
  show ?case
  proof (cases i)
    case 0
    with Cons.prems show ?thesis by simp
  next
    case (Suc k)
    with Cons.prems have "\<not> P x" by auto
    moreover from Suc Cons.prems have "findIndex P xs = Some k"
      by (intro Cons.IH) auto
    ultimately show ?thesis using Suc by simp
  qed
qed

lemma findIndex_update:
  assumes "findIndex P xs = Some i" "P y"
  shows "findIndex P (xs[i := y]) = Some i"
proof -
  from findIndex_Some[OF assms(1)] have i: "i < length xs" and nj: "\<forall>j<i. \<not> P (xs ! j)"
    by auto
  show ?thesis
    by (rule findIndex_first) (use i nj assms(2) in auto)
qed

lemma map_of_rebind:
  "map_of (map (\<lambda>(k', v'). if k' = k then (k', v) else (k', v')) xs) x =
     (if x = k then (if k \<in> fst ` set xs then Some v else None) else map_of xs x)"
  by (induction xs) (auto split: if_splits)

lemma get_prop_set_prop:
  "get_prop (set_prop ob k v) x = (if x = k then Some v else get_prop ob x)"
proof (cases "k \<in> fst ` set ob")
  case True
  then show ?thesis
    using map_of_rebind[of k v "rev ob" x] by (simp add: get_prop_def set_prop_def rev_map)
next
  case False
  then show ?thesis
    by (simp add: get_prop_def set_prop_def)
qed

lemma get_prop_Nil: "get_prop [] x = None"
  by (simp add: get_prop_def)

lemma get_prop_Cons:
  "get_prop ((k, v) # r) x =
     (case get_prop r x of Some w \<Rightarrow> Some w | None \<Rightarrow> if x = k then Some v else None)"
  by (simp add: get_prop_def map_add_def split: option.splits)

text \<open>Spreading \<open>src\<close> over \<open>target\<close>: the keys of \<open>src\<close> win, every other key keeps the value
  it has in \<open>target\<close>.\<close>

lemma get_prop_spread:
  "get_prop (spread target src) x =
     (case get_prop src x of Some v \<Rightarrow> Some v | None \<Rightarrow> get_prop target x)"
  unfolding spread_def
proof (induction src arbitrary: target)
  case Nil
  show ?case by (simp add: get_prop_Nil)
next
  case (Cons kv src)
  obtain k v where kv: "kv = (k, v)" by (cases kv)
  show ?case
    using Cons.IH[of "set_prop target k v"]
    by (simp add: kv get_prop_set_prop get_prop_Cons split: option.splits)
qed

text \<open>The facts that evaluate a handler on the sample data.\<close>

lemmas run_defs =
  env0_def env1_def store0_def ada_body_def ada_def store_ada_def newUser_def newProject_def
  falsy_def str_of_def validateEmail_def validatePassword_def email_char_def js_space_def
  or_str_def or_num_def or_bool_def splice1_def demoProjects_def
  readUsers_def writeUsers_def readProjects_def writeProjects_def
  failure_def status_of_def body_of_def Let_def

section \<open>The sample stores are reachable\<close>

lemma signup_ada:
  "post_api_signup env0 ada_body store0 =
     ((200, JObj [(''success'', JBool True), (''message'', JStr ''User created successfully!''),
                  (''user'', JObj [(''id'', JStr ''1700000000000''), (''username'', JStr ''ada''),
                                   (''firstname'', JStr ''Ada''),
                                   (''userType'', JStr ''entrepreneur'')])]),
      store_ada)"
  by (simp add: post_api_signup_def run_defs)

lemma create_td: "snd (post_api_projects env1 td_body store_ada) = store_td"
  by (simp add: post_api_projects_def td_body_def store_td_def td_project_def run_defs)

lemma favorite_td:
  "snd (post_api_favorites (Some ''ada'') (Some ''1700000000001'') store_td) = store_fav"
  by (simp add: post_api_favorites_def store_td_def store_fav_def td_project_def ada_fav_def
      run_defs)

lemma delete_td:
  "snd (delete_api_projects ''1700000000001'' (Some ''ada'') store_fav) = store_fav_deleted"
  by (simp add: delete_api_projects_def store_fav_deleted_def store_fav_def td_project_def
      ada_fav_def run_defs)

lemma store_al_bob_users:
  "map username (USERS_FILE store_al_bob) = [''bob@x.com'', ''bob''] \<and>
   map email (USERS_FILE store_al_bob) = [''al@x.com'', ''bob@x.com''] \<and>
   map password (USERS_FILE store_al_bob) = [''$2a$12$alpass1'', ''$2a$12$bobpass1'']"
  by (simp add: store_al_bob_def post_api_signup_def al_body_def bob_body_def run_defs)

section \<open>Signup\<close>

lemma signup_success:
  assumes "valid_signup b"
    and "\<forall>u\<in>set (USERS_FILE s). username u \<noteq> str_of (sb_username b) \<and> email u \<noteq> str_of (sb_email b)"
  shows "post_api_signup e b s =
     ((200, JObj [(''success'', JBool True),
                  (''message'', JStr ''User created successfully!''),
                  (''user'', JObj [(''id'', JStr (user_id (newUser e b))),
                                   (''username'', JStr (username (newUser e b))),
                                   (''firstname'', JStr (firstname (newUser e b))),
                                   (''userType'', JStr (userType (newUser e b)))])]),
      s\<lparr>USERS_FILE := USERS_FILE s @ [newUser e b]\<rparr>)"
proof -
  from assms(2) have "find (\<lambda>u. username u = str_of (sb_username b)) (USERS_FILE s) = None"
    and "find (\<lambda>u. email u = str_of (sb_email b)) (USERS_FILE s) = None"
    by (auto simp: find_None_iff)
  with assms(1) show ?thesis
    by (auto simp: post_api_signup_def valid_signup_def readUsers_def writeUsers_def Let_def)
qed

lemma signup_status_200:
  assumes "status_of (fst (post_api_signup e b s)) = 200"
  shows "valid_signup b \<and>
         (\<forall>u\<in>set (USERS_FILE s). username u \<noteq> str_of (sb_username b) \<and> email u \<noteq> str_of (sb_email b))"
  using assms
  by (auto simp: post_api_signup_def valid_signup_def readUsers_def failure_def status_of_def
      Let_def find_None_iff split: if_splits)

text \<open>
  Claim C1, as amended. A signup request that passes the validation steps and whose username
  or email already occurs among the stored users is answered with status 409 (Conflict),
  the username being checked first, and leaves the store as it was.
\<close>

theorem signup_duplicate_conflict:
  assumes "valid_signup b"
    and "\<exists>u\<in>set (USERS_FILE s). username u = str_of (sb_username b) \<or> email u = str_of (sb_email b)"
  shows "fst (post_api_signup e b s) =
           failure 409 (if \<exists>u\<in>set (USERS_FILE s). username u = str_of (sb_username b)
                        then ''Username already exists.'' else ''Email already exists.'') \<and>
         status_of (fst (post_api_signup e b s)) = 409 \<and>
         snd (post_api_signup e b s) = s"
proof (cases "\<exists>u\<in>set (USERS_FILE s). username u = str_of (sb_username b)")
  case True
  then have "find (\<lambda>u. username u = str_of (sb_username b)) (USERS_FILE s) \<noteq> None"
    by (auto simp: find_None_iff)
  with assms(1) True show ?thesis
    by (auto simp: post_api_signup_def valid_signup_def readUsers_def failure_def status_of_def
        Let_def)
next
  case False
  then have un: "find (\<lambda>u. username u = str_of (sb_username b)) (USERS_FILE s) = None"
    by (auto simp: find_None_iff)
  from False assms(2) have "find (\<lambda>u. email u = str_of (sb_email b)) (USERS_FILE s) \<noteq> None"
    by (auto simp: find_None_iff)
  with assms(1) False un show ?thesis
    by (auto simp: post_api_signup_def valid_signup_def readUsers_def failure_def status_of_def
        Let_def)
qed

theorem signup_duplicate_conflict_witness:
  "valid_signup ada_body \<and> ada \<in> set (USERS_FILE store_ada) \<and>
   username ada = str_of (sb_username ada_body) \<and>
   fst (post_api_signup env1 ada_body store_ada) = failure 409 ''Username already exists.'' \<and>
   snd (post_api_signup env1 ada_body store_ada) = store_ada"
proof -
  have v: "valid_signup ada_body"
    by (simp add: valid_signup_def run_defs)
  have d: "\<exists>u\<in>set (USERS_FILE store_ada).
             username u = str_of (sb_username ada_body) \<or> email u = str_of (sb_email ada_body)"
    by (simp add: run_defs)
  from signup_duplicate_conflict[OF v d, of env1] v show ?thesis
    by (simp add: run_defs)
qed

text \<open>The claim as stated fails where validation rejects the request first: the username
  \<open>ada\<close> is stored, the password is too short, and the answer is 400, not 409.\<close>

theorem signup_duplicate_conflict_counterexample:
  "ada \<in> set (USERS_FILE store_ada) \<and>
   username ada = str_of (sb_username short_pw_body) \<and>
   fst (post_api_signup env1 short_pw_body store_ada) =
     failure 400 ''Password must be at least 6 characters long.'' \<and>
   status_of (fst (post_api_signup env1 short_pw_body store_ada)) \<noteq> 409"
  by (simp add: post_api_signup_def short_pw_body_def run_defs)

text \<open>
  Claim C9, as amended. The user of a successful signup response has exactly the four
  fields \<open>id\<close>, \<open>username\<close>, \<open>firstname\<close> and \<open>userType\<close> of the created user (the last
  record of the written collection); \<open>lastname\<close>, \<open>email\<close> and \<open>createdAt\<close> are left out
  along with \<open>password\<close> and \<open>profile\<close>.
\<close>

theorem signup_response_user:
  assumes "status_of (fst (post_api_signup e b s)) = 200"
  shows "USERS_FILE (snd (post_api_signup e b s)) = USERS_FILE s @ [newUser e b] \<and>
         (\<exists>ru. field ''user'' (body_of (fst (post_api_signup e b s))) = Some (JObj ru) \<and>
               (\<forall>k. get_prop ru k =
                      (if k \<in> {''id'', ''username'', ''firstname'', ''userType''}
                       then get_prop (user_json (newUser e b)) k else None)))"
proof -
  from signup_status_200[OF assms] have v: "valid_signup b"
    and f: "\<forall>u\<in>set (USERS_FILE s). username u \<noteq> str_of (sb_username b) \<and> email u \<noteq> str_of (sb_email b)"
    by auto
  let ?ru = "[(''id'', JStr (user_id (newUser e b))), (''username'', JStr (username (newUser e b))),
              (''firstname'', JStr (firstname (newUser e b))),
              (''userType'', JStr (userType (newUser e b)))]"
  have "field ''user'' (body_of (fst (post_api_signup e b s))) = Some (JObj ?ru)"
    by (simp add: signup_success[OF v f] body_of_def get_prop_def)
  moreover have "get_prop ?ru k =
      (if k \<in> {''id'', ''username'', ''firstname'', ''userType''}
       then get_prop (user_json (newUser e b)) k else None)" for k
    by (simp add: get_prop_def user_json_def newUser_def)
  moreover have "USERS_FILE (snd (post_api_signup e b s)) = USERS_FILE s @ [newUser e b]"
    by (simp add: signup_success[OF v f])
  ultimately show ?thesis by blast
qed

theorem signup_response_user_witness:
  "status_of (fst (post_api_signup env0 ada_body store0)) = 200 \<and>
   USERS_FILE (snd (post_api_signup env0 ada_body store0)) = [ada] \<and>
   field ''user'' (body_of (fst (post_api_signup env0 ada_body store0))) =
     Some (JObj [(''id'', JStr ''1700000000000''), (''username'', JStr ''ada''),
                 (''firstname'', JStr ''Ada''), (''userType'', JStr ''entrepreneur'')])"
proof -
  have st: "status_of (fst (post_api_signup env0 ada_body store0)) = 200"
    by (simp add: signup_ada status_of_def)
  from signup_response_user[OF st] st show ?thesis
    by (simp add: signup_ada body_of_def get_prop_def store_ada_def)
qed

text \<open>The claim as stated fails: the created user minus \<open>password\<close> and \<open>profile\<close> still has
  an \<open>email\<close>, the response user has none.\<close>

theorem signup_response_user_counterexample:
  "status_of (fst (post_api_signup env0 ada_body store0)) = 200 \<and>
   last (USERS_FILE (snd (post_api_signup env0 ada_body store0))) = ada \<and>
   get_prop (omit [''password'', ''profile''] (user_json ada)) ''email'' = Some (JStr ''ada@x.com'') \<and>
   field ''user'' (body_of (fst (post_api_signup env0 ada_body store0))) =
     Some (JObj [(''id'', JStr ''1700000000000''), (''username'', JStr ''ada''),
                 (''firstname'', JStr ''Ada''), (''userType'', JStr ''entrepreneur'')]) \<and>
   get_prop [(''id'', JStr ''1700000000000''), (''username'', JStr ''ada''),
             (''firstname'', JStr ''Ada''), (''userType'', JStr ''entrepreneur'')] ''email'' = None"
  by (simp add: signup_ada status_of_def body_of_def get_prop_def omit_def user_json_def
      store_ada_def ada_def)

text \<open>
  Claim C10, as amended. The uniqueness checks of signup compare strings exactly. Given a
  stored collection in which neither username and neither email occurs, two valid signups
  with different usernames whose emails differ only in the case of letters both succeed,
  one after the other, and both users are stored.
\<close>

theorem signup_email_case_sensitive:
  assumes "valid_signup b1" and "valid_signup b2"
    and "str_of (sb_username b1) \<noteq> str_of (sb_username b2)"
    and "\<forall>u\<in>set (USERS_FILE s).
           username u \<noteq> str_of (sb_username b1) \<and> username u \<noteq> str_of (sb_username b2) \<and>
           email u \<noteq> str_of (sb_email b1) \<and> email u \<noteq> str_of (sb_email b2)"
    and "differ_only_in_case (str_of (sb_email b1)) (str_of (sb_email b2))"
  shows "status_of (fst (post_api_signup e1 b1 s)) = 200 \<and>
         status_of (fst (post_api_signup e2 b2 (snd (post_api_signup e1 b1 s)))) = 200 \<and>
         USERS_FILE (snd (post_api_signup e2 b2 (snd (post_api_signup e1 b1 s)))) =
           USERS_FILE s @ [newUser e1 b1, newUser e2 b2]"
proof -
  from assms(4) have f1: "\<forall>u\<in>set (USERS_FILE s).
      username u \<noteq> str_of (sb_username b1) \<and> email u \<noteq> str_of (sb_email b1)"
    by blast
  note s1 = signup_success[OF assms(1) f1, of e1]
  let ?s1 = "s\<lparr>USERS_FILE := USERS_FILE s @ [newUser e1 b1]\<rparr>"
  from assms(5) have ne: "str_of (sb_email b1) \<noteq> str_of (sb_email b2)"
    by (simp add: differ_only_in_case_def)
  have f2: "\<forall>u\<in>set (USERS_FILE ?s1).
      username u \<noteq> str_of (sb_username b2) \<and> email u \<noteq> str_of (sb_email b2)"
    using assms(3,4) ne by (auto simp: newUser_def)
  note s2 = signup_success[OF assms(2) f2, of e2]
  show ?thesis
    by (simp add: s1 s2 status_of_def)
qed

theorem signup_email_case_sensitive_witness:
  "differ_only_in_case ''Ada@x.com'' ''ada@x.com'' \<and>
   status_of (fst (post_api_signup env0 upper_body store0)) = 200 \<and>
   status_of (fst (post_api_signup env1 lower_body (snd (post_api_signup env0 upper_body store0)))) = 200 \<and>
   map email (USERS_FILE (snd (post_api_signup env1 lower_body
                                 (snd (post_api_signup env0 upper_body store0))))) =
     [''Ada@x.com'', ''ada@x.com'']"
proof -
  have v1: "valid_signup upper_body" and v2: "valid_signup lower_body"
    by (simp_all add: valid_signup_def upper_body_def lower_body_def run_defs)
  have u: "str_of (sb_username upper_body) \<noteq> str_of (sb_username lower_body)"
    by (simp add: upper_body_def lower_body_def str_of_def)
  have f: "\<forall>u\<in>set (USERS_FILE store0).
           username u \<noteq> str_of (sb_username upper_body) \<and>
           username u \<noteq> str_of (sb_username lower_body) \<and>
           email u \<noteq> str_of (sb_email upper_body) \<and> email u \<noteq> str_of (sb_email lower_body)"
    by (simp add: store0_def)
  have c: "differ_only_in_case ''Ada@x.com'' ''ada@x.com''"
    by (simp add: differ_only_in_case_def lower_char_def char_of_eq_iff)
  then have c': "differ_only_in_case (str_of (sb_email upper_body)) (str_of (sb_email lower_body))"
    by (simp add: upper_body_def lower_body_def str_of_def)
  from signup_email_case_sensitive[OF v1 v2 u f c', of env0 env1] c show ?thesis
    by (simp add: newUser_def upper_body_def lower_body_def str_of_def store0_def)
qed

text \<open>The claim as stated fails for a stored collection that already holds one of the two
  emails: the first signup succeeds, the second is answered with 409.\<close>

theorem signup_email_case_sensitive_counterexample:
  "differ_only_in_case (str_of (sb_email upper_body)) (str_of (sb_email lower_body)) \<and>
   status_of (fst (post_api_signup env0 upper_body store_ada)) = 200 \<and>
   fst (post_api_signup env1 lower_body (snd (post_api_signup env0 upper_body store_ada))) =
     failure 409 ''Email already exists.''"
  by (simp add: post_api_signup_def upper_body_def lower_body_def differ_only_in_case_def
      lower_char_def char_of_eq_iff run_defs)

section \<open>Login\<close>

lemma find_filter: "find P xs = (case filter P xs of [] \<Rightarrow> None | x # _ \<Rightarrow> Some x)"
  by (induction xs) auto

text \<open>Where at most one element passes the test, \<open>find\<close> returns that element.\<close>

lemma find_unique:
  assumes "length (filter P xs) \<le> 1" and "u \<in> set xs" and "P u"
  shows "find P xs = Some u"
proof -
  from assms(2,3) have m: "u \<in> set (filter P xs)"
    by simp
  then obtain y ys where f: "filter P xs = y # ys"
    by (cases "filter P xs") auto
  with assms(1) have "ys = []"
    by simp
  with m f have "filter P xs = [u]"
    by simp
  then show ?thesis
    by (simp add: find_filter)
qed

text \<open>
  Claim C2, as amended. Login never writes. A request with an empty or absent field fails
  validation (400) before any lookup. For a request with both fields and a stored
  collection in which at most one user's username or email equals \<open>usernameOrEmail\<close>:
  the login succeeds exactly when some stored user's username or email equals
  \<open>usernameOrEmail\<close> and the password verifies against that user's hash; when no user
  matches the answer is 401 `User not found.' (the NotFound of the specification); when
  the user matches and the verification fails it is 401 `Incorrect password.'
  (Unauthorized); the user of a successful response carries the profile and has no
  password field.
\<close>

theorem login_unique_match:
  "snd (post_api_login e x pw s) = s \<and>
   (falsy x \<or> falsy pw \<longrightarrow> fst (post_api_login e x pw s) = failure 400 ''All fields are required.'') \<and>
   (\<not> falsy x \<and> \<not> falsy pw \<and>
    length (filter (\<lambda>u. username u = str_of x \<or> email u = str_of x) (USERS_FILE s)) \<le> 1 \<longrightarrow>
      (status_of (fst (post_api_login e x pw s)) = 200 \<longleftrightarrow>
         (\<exists>u\<in>set (USERS_FILE s). (username u = str_of x \<or> email u = str_of x) \<and>
              bcrypt_compare e (str_of pw) (password u))) \<and>
      ((\<forall>u\<in>set (USERS_FILE s). username u \<noteq> str_of x \<and> email u \<noteq> str_of x) \<longrightarrow>
         fst (post_api_login e x pw s) = failure 401 ''User not found.'') \<and>
      (\<forall>u\<in>set (USERS_FILE s). (username u = str_of x \<or> email u = str_of x) \<and>
           \<not> bcrypt_compare e (str_of pw) (password u) \<longrightarrow>
         fst (post_api_login e x pw s) = failure 401 ''Incorrect password.'') \<and>
      (\<forall>u\<in>set (USERS_FILE s). (username u = str_of x \<or> email u = str_of x) \<and>
           bcrypt_compare e (str_of pw) (password u) \<longrightarrow>
         (\<exists>ru. field ''user'' (body_of (fst (post_api_login e x pw s))) = Some (JObj ru) \<and>
               get_prop ru ''profile'' = Some (JObj (profile u)) \<and>
               get_prop ru ''password'' = None)))"
proof -
  let ?P = "\<lambda>u. username u = str_of x \<or> email u = str_of x"
  let ?one = "length (filter ?P (USERS_FILE s)) \<le> 1"
  have unchanged: "snd (post_api_login e x pw s) = s"
    by (simp add: post_api_login_def Let_def split: option.splits)
  have invalid: "falsy x \<or> falsy pw \<Longrightarrow>
      fst (post_api_login e x pw s) = failure 400 ''All fields are required.''"
    by (auto simp: post_api_login_def)
  have none: "fst (post_api_login e x pw s) = failure 401 ''User not found.''"
    if "\<not> falsy x" "\<not> falsy pw" "\<forall>u\<in>set (USERS_FILE s). username u \<noteq> str_of x \<and> email u \<noteq> str_of x"
  proof -
    from that(3) have "find ?P (USERS_FILE s) = None"
      by (auto simp: find_None_iff)
    with that(1,2) show ?thesis
      by (simp add: post_api_login_def readUsers_def Let_def)
  qed
  have wrong: "fst (post_api_login e x pw s) = failure 401 ''Incorrect password.''"
    if "\<not> falsy x" "\<not> falsy pw" ?one "u \<in> set (USERS_FILE s)" "?P u"
       "\<not> bcrypt_compare e (str_of pw) (password u)" for u
    using that(1,2,6) find_unique[OF that(3,4,5)]
    by (simp add: post_api_login_def readUsers_def Let_def)
  have right: "fst (post_api_login e x pw s) =
      (200, JObj [(''success'', JBool True), (''message'', JStr ''Login successful!''),
                  (''user'', JObj [(''id'', JStr (user_id u)), (''username'', JStr (username u)),
                                   (''firstname'', JStr (firstname u)),
                                   (''userType'', JStr (userType u)),
                                   (''profile'', JObj (profile u))])])"
    if "\<not> falsy x" "\<not> falsy pw" ?one "u \<in> set (USERS_FILE s)" "?P u"
       "bcrypt_compare e (str_of pw) (password u)" for u
    using that(1,2,6) find_unique[OF that(3,4,5)]
    by (simp add: post_api_login_def readUsers_def Let_def)
  have iff: "status_of (fst (post_api_login e x pw s)) = 200 \<longleftrightarrow>
      (\<exists>u\<in>set (USERS_FILE s). ?P u \<and> bcrypt_compare e (str_of pw) (password u))"
    if v: "\<not> falsy x" "\<not> falsy pw" ?one
  proof (cases "\<exists>u\<in>set (USERS_FILE s). ?P u")
    case False
    then have "\<forall>u\<in>set (USERS_FILE s). username u \<noteq> str_of x \<and> email u \<noteq> str_of x"
      by blast
    from none[OF v(1,2) this] False show ?thesis
      by (auto simp: failure_def status_of_def)
  next
    case True
    then obtain u where u: "u \<in> set (USERS_FILE s)" "?P u"
      by blast
    have only: "w = u" if "w \<in> set (USERS_FILE s)" "?P w" for w
      using find_unique[OF v(3) that] find_unique[OF v(3) u] by simp
    show ?thesis
    proof (cases "bcrypt_compare e (str_of pw) (password u)")
      case True
      from right[OF v u True] u True show ?thesis
        by (auto simp: status_of_def)
    next
      case False
      from wrong[OF v u False] False only show ?thesis
        by (auto simp: failure_def status_of_def)
    qed
  qed
  have user: "\<exists>ru. field ''user'' (body_of (fst (post_api_login e x pw s))) = Some (JObj ru) \<and>
               get_prop ru ''profile'' = Some (JObj (profile u)) \<and>
               get_prop ru ''password'' = None"
    if "\<not> falsy x" "\<not> falsy pw" ?one "u \<in> set (USERS_FILE s)" "?P u"
       "bcrypt_compare e (str_of pw) (password u)" for u
    by (simp add: right[OF that] body_of_def get_prop_def)
  show ?thesis
  proof (intro conjI impI ballI; (elim conjE)?)
    show "snd (post_api_login e x pw s) = s"
      by (rule unchanged)
  next
    assume "falsy x \<or> falsy pw"
    then show "fst (post_api_login e x pw s) = failure 400 ''All fields are required.''"
      by (rule invalid)
  next
    assume "\<not> falsy x" "\<not> falsy pw" ?one
    then show "status_of (fst (post_api_login e x pw s)) = 200 \<longleftrightarrow>
      (\<exists>u\<in>set (USERS_FILE s). ?P u \<and> bcrypt_compare e (str_of pw) (password u))"
      by (rule iff)
  next
    assume "\<not> falsy x" "\<not> falsy pw"
      and "\<forall>u\<in>set (USERS_FILE s). username u \<noteq> str_of x \<and> email u \<noteq> str_of x"
    then show "fst (post_api_login e x pw s) = failure 401 ''User not found.''"
      by (rule none)
  next
    fix u
    assume "\<not> falsy x" "\<not> falsy pw" ?one "u \<in> set (USERS_FILE s)" "?P u"
      "\<not> bcrypt_compare e (str_of pw) (password u)"
    then show "fst (post_api_login e x pw s) = failure 401 ''Incorrect password.''"
      by (rule wrong)
  next
    fix u
    assume "\<not> falsy x" "\<not> falsy pw" ?one "u \<in> set (USERS_FILE s)" "?P u"
      "bcrypt_compare e (str_of pw) (password u)"
    then show "\<exists>ru. field ''user'' (body_of (fst (post_api_login e x pw s))) = Some (JObj ru) \<and>
               get_prop ru ''profile'' = Some (JObj (profile u)) \<and>
               get_prop ru ''password'' = None"
      by (rule user)
  qed
qed

theorem login_unique_match_witness:
  "ada \<in> set (USERS_FILE store_ada) \<and>
   length (filter (\<lambda>u. username u = ''ada@x.com'' \<or> email u = ''ada@x.com'') (USERS_FILE store_ada)) = 1 \<and>
   status_of (fst (post_api_login env0 (Some ''ada@x.com'') (Some ''secret1'') store_ada)) = 200 \<and>
   snd (post_api_login env0 (Some ''ada@x.com'') (Some ''secret1'') store_ada) = store_ada \<and>
   fst (post_api_login env0 (Some ''ada'') (Some ''secret2'') store_ada) =
     failure 401 ''Incorrect password.'' \<and>
   fst (post_api_login env0 (Some ''eve'') (Some ''secret1'') store_ada) =
     failure 401 ''User not found.''"
proof -
  have m: "ada \<in> set (USERS_FILE store_ada)"
    by (simp add: store_ada_def)
  have f: "length (filter (\<lambda>u. username u = ''ada@x.com'' \<or> email u = ''ada@x.com'')
             (USERS_FILE store_ada)) = 1"
    and g: "length (filter (\<lambda>u. username u = ''ada'' \<or> email u = ''ada'')
             (USERS_FILE store_ada)) = 1"
    and h: "length (filter (\<lambda>u. username u = ''eve'' \<or> email u = ''eve'')
             (USERS_FILE store_ada)) = 0"
    by (simp_all add: store_ada_def ada_def)
  have a: "username ada = ''ada''" "email ada = ''ada@x.com''"
    by (simp_all add: ada_def)
  have u: "USERS_FILE store_ada = [ada]"
    by (simp add: store_ada_def)
  have c: "bcrypt_compare env0 ''secret1'' (password ada)"
    and d: "\<not> bcrypt_compare env0 ''secret2'' (password ada)"
    by (simp_all add: env0_def ada_def)
  from login_unique_match[of env0 "Some ''ada@x.com''" "Some ''secret1''" store_ada]
    login_unique_match[of env0 "Some ''ada''" "Some ''secret2''" store_ada]
    login_unique_match[of env0 "Some ''eve''" "Some ''secret1''" store_ada]
    m f g h c d
  show ?thesis
    by (simp add: falsy_def str_of_def u a)
qed

text \<open>The claim as stated fails where validation rejects the request first: no stored
  user is named \<open>eve\<close>, the request has no password, and the answer is 400 `All fields are
  required.', not `User not found.'.\<close>

theorem login_unique_match_counterexample:
  "find (\<lambda>u. username u = ''eve'' \<or> email u = ''eve'') (USERS_FILE store_ada) = None \<and>
   fst (post_api_login env0 (Some ''eve'') None store_ada) =
     failure 400 ''All fields are required.'' \<and>
   fst (post_api_login env0 (Some ''eve'') None store_ada) \<noteq> failure 401 ''User not found.''"
  by (simp add: post_api_login_def run_defs)

text \<open>
  A gap of the uniqueness checks, outside the statement above: signup compares usernames
  with usernames and emails with emails, so that the username of one account can be the
  email of another, and login looks both fields up under one key. In \<open>store_al_bob\<close>,
  reached by the signups \<open>al_body\<close> and \<open>bob_body\<close>, the second user is refused with the
  user's own email and password.
\<close>

lemma login_cross_field_collision:
  "map email (USERS_FILE store_al_bob) ! 1 = ''bob@x.com'' \<and>
   bcrypt_compare env0 ''bobpass1'' (map password (USERS_FILE store_al_bob) ! 1) \<and>
   length (filter (\<lambda>u. username u = ''bob@x.com'' \<or> email u = ''bob@x.com'')
             (USERS_FILE store_al_bob)) = 2 \<and>
   fst (post_api_login env0 (Some ''bob@x.com'') (Some ''bobpass1'') store_al_bob) =
     failure 401 ''Incorrect password.''"
  by (simp add: post_api_login_def store_al_bob_def post_api_signup_def al_body_def bob_body_def
      run_defs)

section \<open>Profile update\<close>

text \<open>
  Claim C6. For the first stored user named \<open>uname\<close> (index \<open>i\<close>), the update succeeds; every
  key of the partial profile takes the supplied value and every other profile key keeps its
  value; the other fields of that user, every other user, the length of the collection and
  the projects are unchanged.
\<close>

theorem update_profile_frame:
  assumes "findIndex (\<lambda>u. username u = uname) (USERS_FILE s) = Some i"
  shows "status_of (fst (put_api_user uname prof s)) = 200 \<and>
         PROJECTS_FILE (snd (put_api_user uname prof s)) = PROJECTS_FILE s \<and>
         length (USERS_FILE (snd (put_api_user uname prof s))) = length (USERS_FILE s) \<and>
         (\<forall>j. j \<noteq> i \<longrightarrow> USERS_FILE (snd (put_api_user uname prof s)) ! j = USERS_FILE s ! j) \<and>
         (USERS_FILE (snd (put_api_user uname prof s)) ! i)\<lparr>profile := profile (USERS_FILE s ! i)\<rparr>
            = USERS_FILE s ! i \<and>
         (\<forall>k. get_prop (profile (USERS_FILE (snd (put_api_user uname prof s)) ! i)) k =
               (case get_prop (case prof of None \<Rightarrow> [] | Some p \<Rightarrow> p) k of
                  Some v \<Rightarrow> Some v
                | None \<Rightarrow> get_prop (profile (USERS_FILE s ! i)) k))"
proof -
  from findIndex_Some[OF assms] have i: "i < length (USERS_FILE s)" by simp
  have r: "put_api_user uname prof s =
      ((200, JObj [(''success'', JBool True), (''message'', JStr ''Profile updated successfully!'')]),
       s\<lparr>USERS_FILE := (USERS_FILE s)[i := (USERS_FILE s ! i)\<lparr>profile :=
           spread (spread [] (profile (USERS_FILE s ! i)))
             (case prof of None \<Rightarrow> [] | Some p \<Rightarrow> p)\<rparr>]\<rparr>)"
    using assms by (simp add: put_api_user_def readUsers_def writeUsers_def Let_def)
  show ?thesis
    using i by (simp add: r status_of_def get_prop_spread get_prop_Nil split: option.splits)
qed

theorem update_profile_frame_witness:
  "findIndex (\<lambda>u. username u = ''ada'') (USERS_FILE store_ml) = Some 0 \<and>
   get_prop (profile (USERS_FILE store_ml ! 0)) ''skills'' = Some (JArr [JStr ''ml'']) \<and>
   get_prop (profile (USERS_FILE (snd (put_api_user ''ada'' (Some [(''bio'', JStr ''x'')]) store_ml)) ! 0))
     ''skills'' = Some (JArr [JStr ''ml'']) \<and>
   get_prop (profile (USERS_FILE (snd (put_api_user ''ada'' (Some [(''bio'', JStr ''x'')]) store_ml)) ! 0))
     ''bio'' = Some (JStr ''x'')"
proof -
  have f: "findIndex (\<lambda>u. username u = ''ada'') (USERS_FILE store_ml) = Some 0"
    by (simp add: store_ml_def ada_ml_def ada_def)
  have p: "get_prop (profile (USERS_FILE store_ml ! 0)) ''skills'' = Some (JArr [JStr ''ml''])"
    by (simp add: store_ml_def ada_ml_def get_prop_def)
  from update_profile_frame[OF f, of "Some [(''bio'', JStr ''x'')]"] f p show ?thesis
    by (simp add: get_prop_def)
qed

section \<open>Projects\<close>

lemma create_project_success:
  assumes "\<not> falsy (pb_title b)" "\<not> falsy (pb_description b)" "\<not> falsy (pb_username b)"
  shows "post_api_projects e b s =
     ((200, JObj [(''success'', JBool True),
                  (''message'', JStr ''Project created successfully!''),
                  (''project'', JObj (project_json (newProject e b)))]),
      s\<lparr>PROJECTS_FILE := PROJECTS_FILE s @ [newProject e b]\<rparr>)"
  using assms
  by (simp add: post_api_projects_def readProjects_def writeProjects_def Let_def)

text \<open>
  Claim C3, as amended. Project creation does not consult the user collection. Every request
  with a non-empty title, description and username succeeds, whatever users are stored; the
  new record is appended with the supplied username as its creator, and the user collection
  is neither read nor written.
\<close>

theorem create_project_ignores_users:
  assumes "\<not> falsy (pb_title b)" "\<not> falsy (pb_description b)" "\<not> falsy (pb_username b)"
  shows "status_of (fst (post_api_projects e b s)) = 200 \<and>
         PROJECTS_FILE (snd (post_api_projects e b s)) = PROJECTS_FILE s @ [newProject e b] \<and>
         creator (newProject e b) = str_of (pb_username b) \<and>
         USERS_FILE (snd (post_api_projects e b s)) = USERS_FILE s \<and>
         fst (post_api_projects e b (s\<lparr>USERS_FILE := us\<rparr>)) = fst (post_api_projects e b s)"
  by (simp add: create_project_success[OF assms] status_of_def newProject_def)

theorem create_project_ignores_users_witness:
  "status_of (fst (post_api_projects env1 td_body store_ada)) = 200 \<and>
   map creator (PROJECTS_FILE (snd (post_api_projects env1 td_body store_ada))) = [''ada''] \<and>
   map username (USERS_FILE (snd (post_api_projects env1 td_body store_ada))) = [''ada'']"
proof -
  have v: "\<not> falsy (pb_title td_body)" "\<not> falsy (pb_description td_body)"
    "\<not> falsy (pb_username td_body)"
    by (simp_all add: td_body_def falsy_def)
  from create_project_ignores_users[OF v, of env1 store_ada] show ?thesis
    by (simp add: td_body_def str_of_def store_ada_def ada_def)
qed

text \<open>The claim as stated fails: with no user stored at all, a project is created under the
  username \<open>ghost\<close>.\<close>

theorem create_project_ignores_users_counterexample:
  "USERS_FILE store0 = [] \<and>
   status_of (fst (post_api_projects env0 ghost_body store0)) = 200 \<and>
   map creator (PROJECTS_FILE (snd (post_api_projects env0 ghost_body store0))) = [''ghost''] \<and>
   USERS_FILE (snd (post_api_projects env0 ghost_body store0)) = []"
  by (simp add: post_api_projects_def ghost_body_def td_body_def run_defs)

text \<open>
  Claim C7. A creation request with a non-empty title, description and username and without
  category, funding and lookingForInvestment succeeds and appends a record with category
  \<open>tech\<close>, funding 0, lookingForInvestment false, status \<open>active\<close>, no investors and 0
  likes; the response returns that record.
\<close>

theorem create_project_defaults:
  assumes "\<not> falsy (pb_title b)" "\<not> falsy (pb_description b)" "\<not> falsy (pb_username b)"
    and "pb_category b = None" "pb_funding b = None" "pb_lookingForInvestment b = None"
  shows "status_of (fst (post_api_projects e b s)) = 200 \<and>
         PROJECTS_FILE (snd (post_api_projects e b s)) = PROJECTS_FILE s @ [newProject e b] \<and>
         field ''project'' (body_of (fst (post_api_projects e b s))) =
           Some (JObj (project_json (newProject e b))) \<and>
         category (newProject e b) = ''tech'' \<and>
         funding (newProject e b) = 0 \<and>
         lookingForInvestment (newProject e b) = False \<and>
         status (newProject e b) = ''active'' \<and>
         investors (newProject e b) = [] \<and>
         likes (newProject e b) = 0 \<and>
         title (newProject e b) = str_of (pb_title b) \<and>
         description (newProject e b) = str_of (pb_description b) \<and>
         creator (newProject e b) = str_of (pb_username b)"
  using assms(4-6)
  by (simp add: create_project_success[OF assms(1-3)] status_of_def body_of_def get_prop_def
      newProject_def or_str_def or_num_def or_bool_def falsy_def)

theorem create_project_defaults_witness:
  "status_of (fst (post_api_projects env1 td_body store_ada)) = 200 \<and>
   PROJECTS_FILE (snd (post_api_projects env1 td_body store_ada)) = [td_project] \<and>
   category td_project = ''tech'' \<and> funding td_project = 0 \<and>
   lookingForInvestment td_project = False"
proof -
  have v: "\<not> falsy (pb_title td_body)" "\<not> falsy (pb_description td_body)"
    "\<not> falsy (pb_username td_body)"
    by (simp_all add: td_body_def falsy_def)
  have n: "pb_category td_body = None" "pb_funding td_body = None"
    "pb_lookingForInvestment td_body = None"
    by (simp_all add: td_body_def)
  have p: "newProject env1 td_body = td_project"
    by (simp add: td_body_def td_project_def run_defs)
  from create_project_defaults[OF v n, of env1 store_ada] show ?thesis
    by (simp add: p store_ada_def td_project_def)
qed

subsection \<open>Likes\<close>

lemma js_plus_one_exact: "d < 2 ^ 53 \<Longrightarrow> js_plus_one d = d + 1"
  by (simp add: js_plus_one_def)

text \<open>At \<open>2^53\<close> the sum is \<open>2^53\<close> again; at \<open>2^53 + 2\<close> it is \<open>2^53 + 4\<close>.\<close>

lemma js_plus_one_rounds:
  "js_plus_one 9007199254740992 = 9007199254740992 \<and>
   js_plus_one 9007199254740994 = 9007199254740996"
  by (simp add: js_plus_one_def)

lemma like_found:
  assumes "findIndex (\<lambda>p. project_id p = pid) (PROJECTS_FILE s) = Some i"
  shows "post_api_projects_like pid s =
     ((200, JObj [(''success'', JBool True), (''message'', JStr ''Project liked!''),
                  (''likes'', JNum (int (js_plus_one (likes (PROJECTS_FILE s ! i)))))]),
      s\<lparr>PROJECTS_FILE := (PROJECTS_FILE s)[i :=
           (PROJECTS_FILE s ! i)\<lparr>likes := js_plus_one (likes (PROJECTS_FILE s ! i))\<rparr>]\<rparr>)"
proof -
  from findIndex_Some[OF assms] have "i < length (PROJECTS_FILE s)" by simp
  with assms show ?thesis
    by (simp add: post_api_projects_like_def readProjects_def writeProjects_def Let_def)
qed

lemma like_times_found:
  assumes "findIndex (\<lambda>p. project_id p = pid) (PROJECTS_FILE s) = Some i"
    and "likes (PROJECTS_FILE s ! i) + n \<le> 2 ^ 53"
  shows "like_times n pid s =
     s\<lparr>PROJECTS_FILE := (PROJECTS_FILE s)[i :=
          (PROJECTS_FILE s ! i)\<lparr>likes := likes (PROJECTS_FILE s ! i) + n\<rparr>]\<rparr>"
  using assms
proof (induction n arbitrary: s)
  case 0
  then show ?case by simp
next
  case (Suc n)
  let ?ps = "PROJECTS_FILE s"
  let ?s' = "s\<lparr>PROJECTS_FILE := ?ps[i := (?ps ! i)\<lparr>likes := likes (?ps ! i) + 1\<rparr>]\<rparr>"
  from findIndex_Some[OF Suc.prems(1)]
  have i: "i < length ?ps" and pid: "project_id (?ps ! i) = pid"
    by auto
  from Suc.prems(2) have "likes (?ps ! i) < 2 ^ 53"
    by simp
  then have one: "js_plus_one (likes (?ps ! i)) = likes (?ps ! i) + 1"
    by (rule js_plus_one_exact)
  have f': "findIndex (\<lambda>p. project_id p = pid) (PROJECTS_FILE ?s') = Some i"
    using findIndex_update[OF Suc.prems(1), of "(?ps ! i)\<lparr>likes := likes (?ps ! i) + 1\<rparr>"] pid
    by simp
  have b': "likes (PROJECTS_FILE ?s' ! i) + n \<le> 2 ^ 53"
    using Suc.prems(2) i by simp
  from Suc.IH[OF f' b'] i show ?case
    by (simp add: like_found[OF Suc.prems(1)] one)
qed

text \<open>
  Claim C5, as amended. For an id that some stored project has (the first of them at index
  \<open>i\<close>), one like request succeeds, writes the collection with the likes of that project
  replaced by the sum that JavaScript computes and everything else as it was, and returns
  the written count. While the count is below \<open>2^53\<close> that sum is the count plus exactly 1,
  and \<open>n\<close> like requests one after the other increase a count by exactly \<open>n\<close> as long as
  the result does not exceed \<open>2^53\<close>. For an id that no stored project has the answer is
  404 and nothing changes.
\<close>

theorem like_increments:
  "(findIndex (\<lambda>p. project_id p = pid) (PROJECTS_FILE s) = Some i \<longrightarrow>
      status_of (fst (post_api_projects_like pid s)) = 200 \<and>
      field ''likes'' (body_of (fst (post_api_projects_like pid s))) =
        Some (JNum (int (likes (PROJECTS_FILE (snd (post_api_projects_like pid s)) ! i)))) \<and>
      snd (post_api_projects_like pid s) =
        s\<lparr>PROJECTS_FILE := (PROJECTS_FILE s)[i :=
             (PROJECTS_FILE s ! i)\<lparr>likes := js_plus_one (likes (PROJECTS_FILE s ! i))\<rparr>]\<rparr> \<and>
      (likes (PROJECTS_FILE s ! i) < 2 ^ 53 \<longrightarrow>
         likes (PROJECTS_FILE (snd (post_api_projects_like pid s)) ! i) =
           likes (PROJECTS_FILE s ! i) + 1 \<and>
         field ''likes'' (body_of (fst (post_api_projects_like pid s))) =
           Some (JNum (int (likes (PROJECTS_FILE s ! i) + 1)))) \<and>
      (likes (PROJECTS_FILE s ! i) + n \<le> 2 ^ 53 \<longrightarrow>
         like_times n pid s =
           s\<lparr>PROJECTS_FILE := (PROJECTS_FILE s)[i :=
                (PROJECTS_FILE s ! i)\<lparr>likes := likes (PROJECTS_FILE s ! i) + n\<rparr>]\<rparr> \<and>
         likes (PROJECTS_FILE (like_times n pid s) ! i) = likes (PROJECTS_FILE s ! i) + n)) \<and>
   ((\<forall>p\<in>set (PROJECTS_FILE s). project_id p \<noteq> pid) \<longrightarrow>
      fst (post_api_projects_like pid s) = failure 404 ''Project not found.'' \<and>
      snd (post_api_projects_like pid s) = s)"
proof (intro conjI impI)
  assume "\<forall>p\<in>set (PROJECTS_FILE s). project_id p \<noteq> pid"
  then have "findIndex (\<lambda>p. project_id p = pid) (PROJECTS_FILE s) = None"
    by (simp add: findIndex_None)
  then show "fst (post_api_projects_like pid s) = failure 404 ''Project not found.''"
    and "snd (post_api_projects_like pid s) = s"
    by (simp_all add: post_api_projects_like_def readProjects_def Let_def)
next
  assume f: "findIndex (\<lambda>p. project_id p = pid) (PROJECTS_FILE s) = Some i"
  from findIndex_Some[OF f] have i: "i < length (PROJECTS_FILE s)" by simp
  show "status_of (fst (post_api_projects_like pid s)) = 200"
    by (simp add: like_found[OF f] status_of_def)
  show "field ''likes'' (body_of (fst (post_api_projects_like pid s))) =
        Some (JNum (int (likes (PROJECTS_FILE (snd (post_api_projects_like pid s)) ! i))))"
    using i by (simp add: like_found[OF f] body_of_def get_prop_def)
  show "snd (post_api_projects_like pid s) =
        s\<lparr>PROJECTS_FILE := (PROJECTS_FILE s)[i :=
             (PROJECTS_FILE s ! i)\<lparr>likes := js_plus_one (likes (PROJECTS_FILE s ! i))\<rparr>]\<rparr>"
    by (simp add: like_found[OF f])
  {
    assume b: "likes (PROJECTS_FILE s ! i) < 2 ^ 53"
    show "likes (PROJECTS_FILE (snd (post_api_projects_like pid s)) ! i) =
          likes (PROJECTS_FILE s ! i) + 1"
      using i by (simp add: like_found[OF f] js_plus_one_exact[OF b])
    show "field ''likes'' (body_of (fst (post_api_projects_like pid s))) =
          Some (JNum (int (likes (PROJECTS_FILE s ! i) + 1)))"
      by (simp add: like_found[OF f] js_plus_one_exact[OF b] body_of_def get_prop_def)
  }
  {
    assume b: "likes (PROJECTS_FILE s ! i) + n \<le> 2 ^ 53"
    show "like_times n pid s =
          s\<lparr>PROJECTS_FILE := (PROJECTS_FILE s)[i :=
               (PROJECTS_FILE s ! i)\<lparr>likes := likes (PROJECTS_FILE s ! i) + n\<rparr>]\<rparr>"
      by (rule like_times_found[OF f b])
    show "likes (PROJECTS_FILE (like_times n pid s) ! i) = likes (PROJECTS_FILE s ! i) + n"
      using i by (simp add: like_times_found[OF f b])
  }
qed

theorem like_increments_witness:
  "findIndex (\<lambda>p. project_id p = ''1700000000001'') (PROJECTS_FILE store_td) = Some 0 \<and>
   likes (PROJECTS_FILE store_td ! 0) = 0 \<and>
   field ''likes'' (body_of (fst (post_api_projects_like ''1700000000001'' store_td))) =
     Some (JNum 1) \<and>
   likes (PROJECTS_FILE (like_times 5 ''1700000000001'' store_td) ! 0) = 5 \<and>
   fst (post_api_projects_like ''1700000000002'' store_td) = failure 404 ''Project not found.'' \<and>
   snd (post_api_projects_like ''1700000000002'' store_td) = store_td"
proof -
  have f: "findIndex (\<lambda>p. project_id p = ''1700000000001'') (PROJECTS_FILE store_td) = Some 0"
    by (simp add: store_td_def td_project_def)
  have l: "likes (PROJECTS_FILE store_td ! 0) = 0"
    by (simp add: store_td_def td_project_def)
  have g: "\<forall>p\<in>set (PROJECTS_FILE store_td). project_id p \<noteq> ''1700000000002''"
    by (simp add: store_td_def td_project_def)
  have b1: "likes (PROJECTS_FILE store_td ! 0) < 2 ^ 53"
    and b5: "likes (PROJECTS_FILE store_td ! 0) + 5 \<le> 2 ^ 53"
    by (simp_all add: l)
  from like_increments[of "''1700000000001''" store_td 0 5] f b1 b5
  have one: "field ''likes'' (body_of (fst (post_api_projects_like ''1700000000001'' store_td))) =
      Some (JNum (int (likes (PROJECTS_FILE store_td ! 0) + 1)))"
    and five: "likes (PROJECTS_FILE (like_times 5 ''1700000000001'' store_td) ! 0) =
      likes (PROJECTS_FILE store_td ! 0) + 5"
    by blast+
  from like_increments[of "''1700000000002''" store_td 0 0] g
  have none: "fst (post_api_projects_like ''1700000000002'' store_td) =
      failure 404 ''Project not found.''"
    "snd (post_api_projects_like ''1700000000002'' store_td) = store_td"
    by blast+
  from f l one five none show ?thesis
    by simp
qed

text \<open>The claim as stated fails at the largest count up to which a double holds every whole
  number: in \<open>store_max\<close> the project has \<open>2^53 = 9007199254740992\<close> likes, and a like request
  succeeds, writes the same count again and returns it.\<close>

theorem like_increments_counterexample:
  "findIndex (\<lambda>p. project_id p = ''1700000000001'') (PROJECTS_FILE store_max) = Some 0 \<and>
   likes (PROJECTS_FILE store_max ! 0) = 9007199254740992 \<and>
   status_of (fst (post_api_projects_like ''1700000000001'' store_max)) = 200 \<and>
   field ''likes'' (body_of (fst (post_api_projects_like ''1700000000001'' store_max))) =
     Some (JNum 9007199254740992) \<and>
   likes (PROJECTS_FILE (snd (post_api_projects_like ''1700000000001'' store_max)) ! 0) =
     9007199254740992 \<and>
   snd (post_api_projects_like ''1700000000001'' store_max) = store_max"
  by (simp add: post_api_projects_like_def store_max_def td_project_def js_plus_one_def
      get_prop_def run_defs)

subsection \<open>Deletion\<close>

text \<open>
  Claim C4. A delete request without a username (absent or empty) fails validation (400).
  With a username: for an id that no stored project has the answer is 404; for an id whose
  first stored project (index \<open>i\<close>) has another creator the answer is 403 (Forbidden); in
  these three cases the store is unchanged, so the project is still there. Otherwise
  exactly the record at index \<open>i\<close> is removed and the collection is written.
\<close>

theorem delete_project_cases:
  "(falsy uname \<longrightarrow>
      fst (delete_api_projects pid uname s) = failure 400 ''Username is required.'' \<and>
      snd (delete_api_projects pid uname s) = s) \<and>
   (\<not> falsy uname \<and> (\<forall>p\<in>set (PROJECTS_FILE s). project_id p \<noteq> pid) \<longrightarrow>
      fst (delete_api_projects pid uname s) = failure 404 ''Project not found.'' \<and>
      snd (delete_api_projects pid uname s) = s) \<and>
   (\<not> falsy uname \<and> findIndex (\<lambda>p. project_id p = pid) (PROJECTS_FILE s) = Some i \<and>
    creator (PROJECTS_FILE s ! i) \<noteq> str_of uname \<longrightarrow>
      fst (delete_api_projects pid uname s) =
        failure 403 ''You can only delete your own projects.'' \<and>
      snd (delete_api_projects pid uname s) = s \<and>
      PROJECTS_FILE s ! i \<in> set (PROJECTS_FILE (snd (delete_api_projects pid uname s)))) \<and>
   (\<not> falsy uname \<and> findIndex (\<lambda>p. project_id p = pid) (PROJECTS_FILE s) = Some i \<and>
    creator (PROJECTS_FILE s ! i) = str_of uname \<longrightarrow>
      status_of (fst (delete_api_projects pid uname s)) = 200 \<and>
      PROJECTS_FILE (snd (delete_api_projects pid uname s)) =
        take i (PROJECTS_FILE s) @ drop (Suc i) (PROJECTS_FILE s) \<and>
      length (PROJECTS_FILE (snd (delete_api_projects pid uname s))) + 1 =
        length (PROJECTS_FILE s) \<and>
      USERS_FILE (snd (delete_api_projects pid uname s)) = USERS_FILE s)"
proof (intro conjI impI; (elim conjE)?)
  assume "falsy uname"
  then show "fst (delete_api_projects pid uname s) = failure 400 ''Username is required.''"
    and "snd (delete_api_projects pid uname s) = s"
    by (simp_all add: delete_api_projects_def)
next
  assume u: "\<not> falsy uname" and "\<forall>p\<in>set (PROJECTS_FILE s). project_id p \<noteq> pid"
  then have "findIndex (\<lambda>p. project_id p = pid) (PROJECTS_FILE s) = None"
    by (simp add: findIndex_None)
  with u show "fst (delete_api_projects pid uname s) = failure 404 ''Project not found.''"
    and "snd (delete_api_projects pid uname s) = s"
    by (simp_all add: delete_api_projects_def readProjects_def Let_def)
next
  assume u: "\<not> falsy uname"
    and f: "findIndex (\<lambda>p. project_id p = pid) (PROJECTS_FILE s) = Some i"
    and c: "creator (PROJECTS_FILE s ! i) \<noteq> str_of uname"
  from findIndex_Some[OF f] have i: "i < length (PROJECTS_FILE s)" by simp
  from u f c show "fst (delete_api_projects pid uname s) =
        failure 403 ''You can only delete your own projects.''"
    and unchanged: "snd (delete_api_projects pid uname s) = s"
    by (simp_all add: delete_api_projects_def readProjects_def Let_def)
  from i show "PROJECTS_FILE s ! i \<in> set (PROJECTS_FILE (snd (delete_api_projects pid uname s)))"
    by (simp add: unchanged)
next
  assume u: "\<not> falsy uname"
    and f: "findIndex (\<lambda>p. project_id p = pid) (PROJECTS_FILE s) = Some i"
    and c: "creator (PROJECTS_FILE s ! i) = str_of uname"
  from findIndex_Some[OF f] have i: "i < length (PROJECTS_FILE s)" by simp
  from u f c have r: "delete_api_projects pid uname s =
      ((200, JObj [(''success'', JBool True), (''message'', JStr ''Project deleted successfully!'')]),
       s\<lparr>PROJECTS_FILE := take i (PROJECTS_FILE s) @ drop (Suc i) (PROJECTS_FILE s)\<rparr>)"
    by (simp add: delete_api_projects_def readProjects_def writeProjects_def splice1_def Let_def)
  show "status_of (fst (delete_api_projects pid uname s)) = 200"
    by (simp add: r status_of_def)
  show "PROJECTS_FILE (snd (delete_api_projects pid uname s)) =
        take i (PROJECTS_FILE s) @ drop (Suc i) (PROJECTS_FILE s)"
    by (simp add: r)
  show "length (PROJECTS_FILE (snd (delete_api_projects pid uname s))) + 1 =
        length (PROJECTS_FILE s)"
    using i by (simp add: r)
  show "USERS_FILE (snd (delete_api_projects pid uname s)) = USERS_FILE s"
    by (simp add: r)
qed

theorem delete_project_cases_witness:
  "findIndex (\<lambda>p. project_id p = ''1700000000001'') (PROJECTS_FILE store_td) = Some 0 \<and>
   creator (PROJECTS_FILE store_td ! 0) = ''ada'' \<and>
   fst (delete_api_projects ''1700000000001'' (Some ''eve'') store_td) =
     failure 403 ''You can only delete your own projects.'' \<and>
   snd (delete_api_projects ''1700000000001'' (Some ''eve'') store_td) = store_td \<and>
   fst (delete_api_projects ''1700000000001'' None store_td) =
     failure 400 ''Username is required.'' \<and>
   fst (delete_api_projects ''1700000000002'' (Some ''ada'') store_td) =
     failure 404 ''Project not found.'' \<and>
   PROJECTS_FILE (snd (delete_api_projects ''1700000000001'' (Some ''ada'') store_td)) = []"
proof -
  have f: "findIndex (\<lambda>p. project_id p = ''1700000000001'') (PROJECTS_FILE store_td) = Some 0"
    by (simp add: store_td_def td_project_def)
  have c: "creator (PROJECTS_FILE store_td ! 0) = ''ada''"
    by (simp add: store_td_def td_project_def)
  have g: "\<forall>p\<in>set (PROJECTS_FILE store_td). project_id p \<noteq> ''1700000000002''"
    by (simp add: store_td_def td_project_def)
  have l: "PROJECTS_FILE store_td = [td_project]"
    by (simp add: store_td_def)
  from delete_project_cases[of "Some ''eve''" "''1700000000001''" store_td 0]
    delete_project_cases[of None "''1700000000001''" store_td 0]
    delete_project_cases[of "Some ''ada''" "''1700000000002''" store_td 0]
    delete_project_cases[of "Some ''ada''" "''1700000000001''" store_td 0]
    f c g
  show ?thesis
    by (simp add: falsy_def str_of_def l)
qed

section \<open>Favorites\<close>

text \<open>
  Claim C8, as amended. Let the request name an existing user (the first stored user with
  that username, at index \<open>i\<close>). Adding a non-empty projectId that is already in that user's
  favorites list fails with 409 (Conflict) when the id still resolves to a stored or a demo
  project, and with 404 `Project not found.' when it resolves to neither (the existence check
  comes first). Removing a projectId that is not in the list fails with 404, and so does
  removing when the user has no favorites list. In all four cases the store, and with it the
  favorites list, is unchanged.
\<close>

theorem favorites_membership_errors:
  assumes "\<not> falsy uname"
    and "findIndex (\<lambda>u. username u = str_of uname) (USERS_FILE s) = Some i"
  shows "(\<forall>favs. favorites (USERS_FILE s ! i) = Some favs \<and> \<not> falsy projectId \<and>
            str_of projectId \<in> set favs \<and>
            ((\<exists>p\<in>set (PROJECTS_FILE s). project_id p = str_of projectId) \<or>
             str_of projectId \<in> set demoProjects) \<longrightarrow>
            fst (post_api_favorites uname projectId s) =
              failure 409 ''Project already in favorites.'' \<and>
            snd (post_api_favorites uname projectId s) = s) \<and>
         (\<forall>favs. favorites (USERS_FILE s ! i) = Some favs \<and> \<not> falsy projectId \<and>
            str_of projectId \<in> set favs \<and>
            \<not> ((\<exists>p\<in>set (PROJECTS_FILE s). project_id p = str_of projectId) \<or>
               str_of projectId \<in> set demoProjects) \<longrightarrow>
            fst (post_api_favorites uname projectId s) = failure 404 ''Project not found.'' \<and>
            snd (post_api_favorites uname projectId s) = s) \<and>
         (\<forall>favs. favorites (USERS_FILE s ! i) = Some favs \<and> rid \<notin> set favs \<longrightarrow>
            fst (delete_api_favorites rid uname s) = failure 404 ''Project not in favorites.'' \<and>
            snd (delete_api_favorites rid uname s) = s) \<and>
         (favorites (USERS_FILE s ! i) = None \<longrightarrow>
            fst (delete_api_favorites rid uname s) = failure 404 ''No favorites found.'' \<and>
            snd (delete_api_favorites rid uname s) = s)"
proof (intro conjI allI impI; (elim conjE)?)
  fix favs
  assume fv: "favorites (USERS_FILE s ! i) = Some favs" and p: "\<not> falsy projectId"
    and m: "str_of projectId \<in> set favs"
    and r: "(\<exists>p\<in>set (PROJECTS_FILE s). project_id p = str_of projectId) \<or>
            str_of projectId \<in> set demoProjects"
  from r have "find (\<lambda>p. project_id p = str_of projectId) (PROJECTS_FILE s) \<noteq> None \<or>
               find (\<lambda>d. d = str_of projectId) demoProjects \<noteq> None"
    by (auto simp: find_None_iff)
  with assms fv p m
  show "fst (post_api_favorites uname projectId s) = failure 409 ''Project already in favorites.''"
    and "snd (post_api_favorites uname projectId s) = s"
    by (auto simp: post_api_favorites_def readUsers_def readProjects_def Let_def)
next
  fix favs
  assume fv: "favorites (USERS_FILE s ! i) = Some favs" and p: "\<not> falsy projectId"
    and m: "str_of projectId \<in> set favs"
    and r: "\<not> ((\<exists>p\<in>set (PROJECTS_FILE s). project_id p = str_of projectId) \<or>
               str_of projectId \<in> set demoProjects)"
  from r have "find (\<lambda>p. project_id p = str_of projectId) (PROJECTS_FILE s) = None"
    and "find (\<lambda>d. d = str_of projectId) demoProjects = None"
    by (auto simp: find_None_iff)
  with assms fv p m
  show "fst (post_api_favorites uname projectId s) = failure 404 ''Project not found.''"
    and "snd (post_api_favorites uname projectId s) = s"
    by (simp_all add: post_api_favorites_def readUsers_def readProjects_def Let_def)
next
  fix favs
  assume fv: "favorites (USERS_FILE s ! i) = Some favs" and m: "rid \<notin> set favs"
  from m have "findIndex (\<lambda>x. x = rid) favs = None"
    by (auto simp: findIndex_None)
  with assms fv
  show "fst (delete_api_favorites rid uname s) = failure 404 ''Project not in favorites.''"
    and "snd (delete_api_favorites rid uname s) = s"
    by (simp_all add: delete_api_favorites_def readUsers_def Let_def)
next
  assume "favorites (USERS_FILE s ! i) = None"
  with assms
  show "fst (delete_api_favorites rid uname s) = failure 404 ''No favorites found.''"
    and "snd (delete_api_favorites rid uname s) = s"
    by (simp_all add: delete_api_favorites_def readUsers_def Let_def)
qed

theorem favorites_membership_errors_witness:
  "favorites (USERS_FILE store_fav ! 0) = Some [''1700000000001''] \<and>
   fst (post_api_favorites (Some ''ada'') (Some ''1700000000001'') store_fav) =
     failure 409 ''Project already in favorites.'' \<and>
   snd (post_api_favorites (Some ''ada'') (Some ''1700000000001'') store_fav) = store_fav \<and>
   fst (delete_api_favorites ''demo-1'' (Some ''ada'') store_fav) =
     failure 404 ''Project not in favorites.'' \<and>
   snd (delete_api_favorites ''demo-1'' (Some ''ada'') store_fav) = store_fav \<and>
   fst (delete_api_favorites ''demo-1'' (Some ''ada'') store_ada) =
     failure 404 ''No favorites found.''"
proof -
  have u: "\<not> falsy (Some ''ada'')"
    by (simp add: falsy_def)
  have f: "findIndex (\<lambda>u. username u = str_of (Some ''ada'')) (USERS_FILE store_fav) = Some 0"
    and g: "findIndex (\<lambda>u. username u = str_of (Some ''ada'')) (USERS_FILE store_ada) = Some 0"
    by (simp_all add: store_fav_def store_ada_def ada_fav_def ada_def str_of_def)
  have fv: "favorites (USERS_FILE store_fav ! 0) = Some [''1700000000001'']"
    and nf: "favorites (USERS_FILE store_ada ! 0) = None"
    by (simp_all add: store_fav_def store_ada_def ada_fav_def ada_def)
  have p: "\<exists>p\<in>set (PROJECTS_FILE store_fav). project_id p = ''1700000000001''"
    by (simp add: store_fav_def td_project_def)
  from favorites_membership_errors[OF u f, of "Some ''1700000000001''" "''demo-1''"]
    favorites_membership_errors[OF u g, of None "''demo-1''"] fv nf p
  show ?thesis
    by (simp add: falsy_def str_of_def)
qed

text \<open>The claim as stated fails after the favorite project has been deleted. The store
  \<open>store_fav_deleted\<close> is reached from \<open>store_ada\<close> by creating a project, adding it to Ada's
  favorites and deleting it; adding the id again, which is still in her list, is answered
  404 `Project not found.', not 409.\<close>

theorem favorites_membership_errors_counterexample:
  "snd (delete_api_projects ''1700000000001'' (Some ''ada'')
     (snd (post_api_favorites (Some ''ada'') (Some ''1700000000001'')
        (snd (post_api_projects env1 td_body store_ada))))) = store_fav_deleted \<and>
   favorites (USERS_FILE store_fav_deleted ! 0) = Some [''1700000000001''] \<and>
   fst (post_api_favorites (Some ''ada'') (Some ''1700000000001'') store_fav_deleted) =
     failure 404 ''Project not found.'' \<and>
   status_of (fst (post_api_favorites (Some ''ada'') (Some ''1700000000001'') store_fav_deleted))
     \<noteq> 409"
  by (simp add: create_td favorite_td delete_td)
    (simp add: post_api_favorites_def store_fav_deleted_def ada_fav_def run_defs)

end
